theory Spec2Isabelle
  imports Main "HOL-Library.Word" "HOL-Library.Multiset"
begin

section \<open>Values shared by the revisions of package i18n\<close>

text \<open>
  The repository holds three revisions of the same Go package: the oldest keeps the switch
  callbacks in a slice (\<^verbatim>\<open>SwitchCallbacks\<close>), the middle one (\<^verbatim>\<open>i18n.go\<close>) keeps them in
  a map keyed by a counter, and the newest one adds the option-driven initialisation
  (\<^verbatim>\<open>InitI18nWithOptions\<close>). Functions that are the same in several revisions are embedded
  once; a function that differs carries the suffix \<open>_v0\<close> (slice revision) or \<open>_v1\<close>
  (\<^verbatim>\<open>i18n.go\<close>), and the plain name is the newest revision.
\<close>

text \<open>A \<^verbatim>\<open>language.Tag\<close> is only compared and printed; it is identified by its canonical string.\<close>

datatype language_Tag = MkTag string

fun Tag_String :: "language_Tag \<Rightarrow> string" where
  "Tag_String (MkTag s) = s"

text \<open>A Go \<^verbatim>\<open>error\<close> is identified with its message.\<close>

type_synonym error = string

text \<open>The values of \<^verbatim>\<open>interface{}\<close> that the package passes around.\<close>

datatype iface = INil | IString string | IBool bool | IInt int | IError error

text \<open>Run-time panics and explicit \<^verbatim>\<open>panic(...)\<close> calls.\<close>

datatype panic =
    NilPointerDereference
  | IndexOutOfRange
  | TypeAssertionFailed
  | PanicValue string

text \<open>
  A call either returns a value, panics, or ends the process (\<^verbatim>\<open>log.Fatalf\<close> calls
  \<^verbatim>\<open>os.Exit(1)\<close>). Each outcome carries the state in which it happened.
\<close>

datatype ('a, 's) outcome = Returned 'a 's | Panicked panic 's | Exited 's

fun and_then :: "('a, 's) outcome \<Rightarrow> ('a \<Rightarrow> 's \<Rightarrow> ('b, 's) outcome) \<Rightarrow> ('b, 's) outcome" where
  "and_then (Returned x s) k = k x s"
| "and_then (Panicked p s) k = Panicked p s"
| "and_then (Exited s) k = Exited s"

fun final_state :: "('a, 's) outcome \<Rightarrow> 's" where
  "final_state (Returned x s) = s"
| "final_state (Panicked p s) = s"
| "final_state (Exited s) = s"

fun is_Returned :: "('a, 's) outcome \<Rightarrow> bool" where
  "is_Returned (Returned x s) = True"
| "is_Returned (Panicked p s) = False"
| "is_Returned (Exited s) = False"

fun is_Exited :: "('a, 's) outcome \<Rightarrow> bool" where
  "is_Exited (Returned x s) = False"
| "is_Exited (Panicked p s) = False"
| "is_Exited (Exited s) = True"

subsection \<open>Structs\<close>

record Lang =
  Name :: string
  Tag :: language_Tag
  FileName :: string
  Data :: "string option"

text \<open>The struct \<^verbatim>\<open>Data\<close> (template variables, plural count).\<close>

record I18nData =
  DataMap :: "(string \<times> iface) list option"
  PluralCount :: int

text \<open>
  The func values that the field \<^verbatim>\<open>Callback\<close> of a \<^verbatim>\<open>CallbackData\<close> holds. \<open>Caller n\<close> is a
  function of the caller, named by a number; it is taken to return normally and not to
  call back into the package. \<open>Resubscribe\<close> is the closure that \<^verbatim>\<open>TCDataCallback\<close> builds:
  it carries the variables it captured (default text, identifier, data and the caller's
  \<^verbatim>\<open>callback func(localized string)\<close>, by its number, \<open>None\<close> for nil) and calls
  \<^verbatim>\<open>TCDataCallback\<close> with them.
\<close>

datatype callback = Caller nat | Resubscribe string string "I18nData option" "nat option"

text \<open>
  What is observed of the caller's functions: \<open>Called n\<close>, the call of function \<open>n\<close> as a
  switch callback; \<open>Rendered n x\<close>, the call of \<^verbatim>\<open>callback func(localized string)\<close> number \<open>n\<close>
  with the text \<open>x\<close>.
\<close>

datatype call = Called nat | Rendered nat string

text \<open>\<^verbatim>\<open>CallbackData\<close>; \<open>None\<close> in \<open>Callback\<close> is the nil func.\<close>

record CallbackData =
  Callback :: "callback option"
  CallbackId :: "32 word"
  notOrigin :: bool

text \<open>What \<^verbatim>\<open>Localize\<close> hands to \<^verbatim>\<open>Localizer.Localize\<close>.\<close>

record LocalizeConfig =
  DefaultMessageID :: string
  TemplateData :: "(string \<times> iface) list option"
  ConfigPluralCount :: int

datatype OptionType =
    LogInfoFunc
  | LogErrorFunc
  | UnmarshalFunc
  | PackageSuffix
  | PackagePath
  | PackagePattern
  | PackageListFunc
  | DefaultUseSystemLanguage
  | OtherOptionType

text \<open>
  \<^verbatim>\<open>Option\<close>: \<open>OptData\<close> is the pointer \<^verbatim>\<open>Data *interface{}\<close> (\<open>None\<close> is nil), \<open>OptCallback\<close>
  the closure \<^verbatim>\<open>Callback\<close> by its number (\<open>None\<close> is nil).
\<close>

record Option =
  OptionType :: OptionType
  OptData :: "iface option"
  OptCallback :: "nat option"

definition NewOptionWithCallback :: "OptionType \<Rightarrow> nat option \<Rightarrow> Option" where
  "NewOptionWithCallback optionType callback =
     \<lparr>OptionType = optionType, OptData = None, OptCallback = callback\<rparr>"

definition NewOptionWithData :: "OptionType \<Rightarrow> iface \<Rightarrow> Option" where
  "NewOptionWithData optionType data =
     \<lparr>OptionType = optionType, OptData = Some data, OptCallback = None\<rparr>"

subsection \<open>Function values\<close>

text \<open>
  The values the log sinks take: nil, \<^verbatim>\<open>log.Printf\<close>, \<^verbatim>\<open>log.Fatalf\<close>, a function of the
  caller (\<^verbatim>\<open>InitI18nWithConfig\<close>), or the closure of \<^verbatim>\<open>InitI18nWithOptions\<close> that forwards
  to \<^verbatim>\<open>option.Callback\<close>. A function of the caller is taken to record the message and return.
\<close>

datatype logfn = NoFunc | log_Printf | log_Fatalf | UserFunc nat | ViaCallback "nat option"

datatype unmarshal = NoUnmarshal | toml_Unmarshal | UserUnmarshal nat | UnmarshalViaCallback "nat option"

text \<open>
  \<^verbatim>\<open>packageListFunc\<close>: nil, the closure over \<^verbatim>\<open>PackageListByPatternFunc\<close> and the pattern, or
  the closure over the caller's list function (its \<^verbatim>\<open>option.Callback\<close>) and the pattern.
\<close>

datatype pkglist = NoListFunc | ListByPattern string | ListViaCallback "nat option" string

datatype sink = Stderr | UserSink nat

type_synonym logentry = "sink \<times> string \<times> iface list"

section \<open>The state of the package and the world around it\<close>

text \<open>
  The package-level variables, followed by what is outside them: the heap of
  \<^verbatim>\<open>goI18n.Bundle\<close> objects (\<open>bundles\<close> maps an address to the content of the bundle there,
  \<open>bundle_count\<close> is the next free address; \<open>bundle_ptr\<close>, the variable \<^verbatim>\<open>bundle\<close>, and a
  \<^verbatim>\<open>Localizer\<close> hold addresses), the lines handed to the log sinks, and the trace of
  the calls of the caller's functions. A \<^verbatim>\<open>*goI18n.Localizer\<close> is \<open>None\<close> (nil) or the pair of its bundle pointer
  and its language string. Pointers to \<^verbatim>\<open>Lang\<close> are values: the package never writes to a
  \<^verbatim>\<open>Lang\<close> after building it.
\<close>

record 'b state =
  Localizer :: "(nat option \<times> string) option"
  Languages :: "Lang list"
  Language :: "Lang option"
  DefaultLang :: "Lang option"
  logInfoFunc :: logfn
  logErrorFunc :: logfn
  unmarshalFunc :: unmarshal
  packageListFunc :: pkglist
  bundle_ptr :: "nat option"
  callbackDataMap :: "32 word \<rightharpoonup> CallbackData option"
  currentCallbackDataId :: "32 word"
  SwitchCallbacks :: "nat option list"
  bundle_count :: nat
  bundles :: "nat \<Rightarrow> 'b"
  logged :: "logentry list"
  invoked :: "call list"

text \<open>
  The libraries and the operating system, as parameters: the file system (path to
  bytes), \<^verbatim>\<open>filepath.Glob\<close>, \<^verbatim>\<open>filepath.Join\<close>, \<^verbatim>\<open>language.ParseAcceptLanguage\<close>, the
  operations of \<^verbatim>\<open>goI18n.Bundle\<close> on a bundle's content \<open>'b\<close> (parsing a message file returns
  the content it leaves behind and the error, if any), \<^verbatim>\<open>Localizer.Localize\<close> (on the content
  of the localizer's bundle and its language string), and the caller's package-list
  function.
\<close>

record 'b env =
  file_system :: "string \<rightharpoonup> string"
  Glob :: "string \<Rightarrow> string list \<times> error option"
  Join :: "string list \<Rightarrow> string"
  ParseAcceptLanguage :: "string \<Rightarrow> language_Tag list \<times> error option"
  NewBundle :: "language_Tag \<Rightarrow> 'b"
  RegisterUnmarshalFunc :: "'b \<Rightarrow> string \<Rightarrow> unmarshal \<Rightarrow> 'b"
  ParseMessageFileBytes :: "'b \<Rightarrow> string \<Rightarrow> string \<Rightarrow> 'b \<times> error option"
  Localizer_Localize :: "'b \<Rightarrow> string \<Rightarrow> LocalizeConfig \<Rightarrow> string \<times> error option"
  userPackageList :: "nat \<Rightarrow> string \<Rightarrow> Lang list \<times> error option"

subsection \<open>Calling a log sink\<close>

fun call_log :: "logfn \<Rightarrow> string \<Rightarrow> iface list \<Rightarrow> 'b state \<Rightarrow> (unit, 'b state) outcome" where
  "call_log NoFunc f a s = Panicked NilPointerDereference s"
| "call_log log_Printf f a s = Returned () (s\<lparr>logged := logged s @ [(Stderr, f, a)]\<rparr>)"
| "call_log log_Fatalf f a s = Exited (s\<lparr>logged := logged s @ [(Stderr, f, a)]\<rparr>)"
| "call_log (UserFunc n) f a s = Returned () (s\<lparr>logged := logged s @ [(UserSink n, f, a)]\<rparr>)"
| "call_log (ViaCallback None) f a s = Panicked NilPointerDereference s"
| "call_log (ViaCallback (Some n)) f a s =
     Returned () (s\<lparr>logged := logged s @ [(UserSink n, f, a)]\<rparr>)"

definition info :: "string \<Rightarrow> iface list \<Rightarrow> 'b state \<Rightarrow> (unit, 'b state) outcome" where
  "info f a s = call_log (logInfoFunc s) f a s"

definition err :: "string \<Rightarrow> iface list \<Rightarrow> 'b state \<Rightarrow> (unit, 'b state) outcome" where
  "err f a s = call_log (logErrorFunc s) f a s"

text \<open>A sink that hands control back to its caller.\<close>

fun returns :: "logfn \<Rightarrow> bool" where
  "returns NoFunc = False"
| "returns log_Printf = True"
| "returns log_Fatalf = False"
| "returns (UserFunc n) = True"
| "returns (ViaCallback None) = False"
| "returns (ViaCallback (Some n)) = True"

text \<open>What a call of a sink appends to \<open>logged\<close> (nothing when the sink is nil).\<close>

fun written :: "logfn \<Rightarrow> string \<Rightarrow> iface list \<Rightarrow> logentry list" where
  "written NoFunc f a = []"
| "written log_Printf f a = [(Stderr, f, a)]"
| "written log_Fatalf f a = [(Stderr, f, a)]"
| "written (UserFunc n) f a = [(UserSink n, f, a)]"
| "written (ViaCallback None) f a = []"
| "written (ViaCallback (Some n)) f a = [(UserSink n, f, a)]"

section \<open>The label parser\<close>

text \<open>
  \<^verbatim>\<open>i18nLabelRegexp\<close> is \<^verbatim>\<open># \[i18n\] <(.*)> <(.*)>\<close>. The matcher below is the leftmost-first
  semantics of Go's \<^verbatim>\<open>regexp\<close> for patterns made of literal characters and greedy capturing
  \<^verbatim>\<open>(.*)\<close> groups (\<^verbatim>\<open>.\<close> does not match a newline): \<open>re_here\<close> matches at the start of the
  text and returns the groups, \<open>re_find\<close> tries the start positions from the left.
\<close>

datatype re = Lit char | DotStar

fun re_here :: "re list \<Rightarrow> string \<Rightarrow> string list option" where
  "re_here [] s = Some []"
| "re_here (Lit c # r) [] = None"
| "re_here (Lit c # r) (x # xs) = (if x = c then re_here r xs else None)"
| "re_here (DotStar # r) [] = map_option (\<lambda>gs. [] # gs) (re_here r [])"
| "re_here (DotStar # r) (x # xs) =
     (if x = CHR 0x0A then map_option (\<lambda>gs. [] # gs) (re_here r (x # xs))
      else case re_here (DotStar # r) xs of
             Some (g # gs) \<Rightarrow> Some ((x # g) # gs)
           | Some [] \<Rightarrow> map_option (\<lambda>gs. [] # gs) (re_here r (x # xs))
           | None \<Rightarrow> map_option (\<lambda>gs. [] # gs) (re_here r (x # xs)))"

fun re_find :: "re list \<Rightarrow> string \<Rightarrow> string list option" where
  "re_find r [] = re_here r []"
| "re_find r (x # xs) = (case re_here r (x # xs) of Some gs \<Rightarrow> Some gs | None \<Rightarrow> re_find r xs)"

definition i18nLabelRegexp :: "re list" where
  "i18nLabelRegexp =
     map Lit ''# [i18n] <'' @ [DotStar] @ map Lit ''> <'' @ [DotStar] @ [Lit (CHR ''>'')]"

text \<open>
  \<^verbatim>\<open>ReadLangLabel\<close>: the two groups (\<^verbatim>\<open>FindStringSubmatch(topLine)[1:3]\<close>) on a match, the
  empty slice otherwise.
\<close>

definition ReadLangLabel :: "string \<Rightarrow> string list" where
  "ReadLangLabel topLine =
     (case re_find i18nLabelRegexp topLine of
        Some groups \<Rightarrow> take 2 groups
      | None \<Rightarrow> [])"

text \<open>
  \<^verbatim>\<open>parseTags\<close>: the tags of \<^verbatim>\<open>language.ParseAcceptLanguage\<close>, or the empty slice when it
  reports an error.
\<close>

definition parseTags :: "'b env \<Rightarrow> string \<Rightarrow> language_Tag list" where
  "parseTags e lang =
     (case ParseAcceptLanguage e lang of
        (t, Some _) \<Rightarrow> []
      | (t, None) \<Rightarrow> t)"

text \<open>
  \<^verbatim>\<open>bufio.Reader.ReadString('\n')\<close> on the bytes of a file: the bytes up to and including the
  first newline; when the bytes end before a newline, what was read and \<^verbatim>\<open>io.EOF\<close>.
\<close>

fun ReadString :: "string \<Rightarrow> string \<times> error option" where
  "ReadString [] = ([], Some ''EOF'')"
| "ReadString (x # xs) =
     (if x = CHR 0x0A then ([x], None)
      else case ReadString xs of (line, e) \<Rightarrow> (x # line, e))"

section \<open>The catalog adapter\<close>

text \<open>
  \<^verbatim>\<open>(*Bundle).LoadMessageFile\<close> reads the file and hands the bytes to
  \<^verbatim>\<open>(*Bundle).ParseMessageFileBytes\<close>; only the latter touches the bundle, so a nil bundle
  panics there and not when the file cannot be read.
\<close>

definition bundle_ParseMessageFileBytes ::
  "'b env \<Rightarrow> string \<Rightarrow> string \<Rightarrow> 'b state \<Rightarrow> (error option, 'b state) outcome" where
  "bundle_ParseMessageFileBytes e buf path s =
     (case bundle_ptr s of
        None \<Rightarrow> Panicked NilPointerDereference s
      | Some p \<Rightarrow>
          (case ParseMessageFileBytes e (bundles s p) buf path of
             (b', er) \<Rightarrow> Returned er (s\<lparr>bundles := (bundles s)(p := b')\<rparr>)))"

text \<open>The error of \<^verbatim>\<open>os.Open\<close> and \<^verbatim>\<open>os.ReadFile\<close> on a path that holds no file.\<close>

definition open_error :: "string \<Rightarrow> error" where
  "open_error path = ''open '' @ path @ '': no such file or directory''"

definition bundle_LoadMessageFile ::
  "'b env \<Rightarrow> string \<Rightarrow> 'b state \<Rightarrow> (error option, 'b state) outcome" where
  "bundle_LoadMessageFile e path s =
     (case file_system e path of
        None \<Rightarrow> Returned (Some (open_error path)) s
      | Some buf \<Rightarrow> bundle_ParseMessageFileBytes e buf path s)"

text \<open>\<^verbatim>\<open>goI18n.NewBundle\<close> followed by \<^verbatim>\<open>RegisterUnmarshalFunc\<close>: a fresh bundle on the heap.\<close>

definition new_bundle :: "'b env \<Rightarrow> language_Tag \<Rightarrow> string \<Rightarrow> unmarshal \<Rightarrow> 'b state \<Rightarrow> 'b state" where
  "new_bundle e tag format_name f s =
     s\<lparr>bundle_ptr := Some (bundle_count s),
       bundle_count := Suc (bundle_count s),
       bundles := (bundles s)(bundle_count s := RegisterUnmarshalFunc e (NewBundle e tag) format_name f)\<rparr>"

section \<open>Languages\<close>

definition SimplifiedChinese :: Lang where
  "SimplifiedChinese = \<lparr>Name = ''zh-Hans'', Tag = MkTag ''zh-Hans'', FileName = [], Data = None\<rparr>"

definition English :: Lang where
  "English = \<lparr>Name = ''en'', Tag = MkTag ''en'', FileName = [], Data = None\<rparr>"

definition FullName :: "Lang \<Rightarrow> string" where
  "FullName l =
     (if length (Name l) > 0 then Name l @ '' ('' @ Tag_String (Tag l) @ '')''
      else Tag_String (Tag l))"

definition SetDefaultLang :: "Lang \<Rightarrow> 'b state \<Rightarrow> 'b state" where
  "SetDefaultLang lang s = s\<lparr>DefaultLang := Some lang\<rparr>"

section \<open>Load, use and resolve (newest revision)\<close>

text \<open>
  The error built by \<^verbatim>\<open>fmt.Errorf("[i18n] Load language file \"%s\" error: %v", ...)\<close>
  (\<open>CHR 0x22\<close> is the double quote).
\<close>

definition Errorf_Load :: "Lang \<Rightarrow> error \<Rightarrow> error" where
  "Errorf_Load l x =
     ''[i18n] Load language file '' @ [CHR 0x22] @ FullName l @ [CHR 0x22] @ '' error: '' @ x"

definition LoadLanguage :: "'b env \<Rightarrow> Lang option \<Rightarrow> 'b state \<Rightarrow> (error option, 'b state) outcome" where
  "LoadLanguage e lang s =
     (case lang of
        None \<Rightarrow> Panicked NilPointerDereference s
      | Some l \<Rightarrow>
          and_then
            (case Data l of
               Some d \<Rightarrow> bundle_ParseMessageFileBytes e d (FileName l) s
             | None \<Rightarrow> bundle_LoadMessageFile e (FileName l) s)
            (\<lambda>er s1.
               case er of
                 Some x \<Rightarrow>
                   and_then (err (Errorf_Load l x) [] s1)
                     (\<lambda>_ s2. Returned (Some (Errorf_Load l x)) s2)
               | None \<Rightarrow> Returned None s1))"

definition UseLanguage :: "'b env \<Rightarrow> Lang option \<Rightarrow> 'b state \<Rightarrow> (error option, 'b state) outcome" where
  "UseLanguage e lang s =
     and_then (LoadLanguage e lang (s\<lparr>Language := lang\<rparr>))
       (\<lambda>er s1.
          case er of
            Some x \<Rightarrow> Returned (Some x) s1
          | None \<Rightarrow>
              (case lang of
                 None \<Rightarrow> Panicked NilPointerDereference s1
               | Some l \<Rightarrow>
                   and_then
                     (info ''[i18n] Used language %s'' [IString (FullName l)]
                        (s1\<lparr>Localizer := Some (bundle_ptr s1, Tag_String (Tag l))\<rparr>))
                     (\<lambda>_ s2. Returned None s2)))"

text \<open>
  \<^verbatim>\<open>Localize\<close> is the same in the map revisions (the sink variable is spelt
  \<^verbatim>\<open>LogErrorFunc\<close> in \<^verbatim>\<open>i18n.go\<close>). \<^verbatim>\<open>Localizer.Localize\<close> on a nil localizer, or on one whose
  bundle is nil, dereferences nil.
\<close>

definition Localize ::
  "'b env \<Rightarrow> string \<Rightarrow> string \<Rightarrow> (string \<times> iface) list option \<Rightarrow> int \<Rightarrow> 'b state
     \<Rightarrow> (string, 'b state) outcome" where
  "Localize e defaultLocalized ident data pluralCount s =
     (case Localizer s of
        None \<Rightarrow> Panicked NilPointerDereference s
      | Some (None, lng) \<Rightarrow> Panicked NilPointerDereference s
      | Some (Some p, lng) \<Rightarrow>
          (case Localizer_Localize e (bundles s p) lng
                  \<lparr>DefaultMessageID = ident, TemplateData = data, ConfigPluralCount = pluralCount\<rparr> of
             (localized, Some er) \<Rightarrow>
               and_then (err ''[i18n] i18n error: %v'' [IError er] s)
                 (\<lambda>_ s1. Returned defaultLocalized s1)
           | (localized, None) \<Rightarrow> Returned localized s))"

definition TC :: "'b env \<Rightarrow> string \<Rightarrow> string \<Rightarrow> 'b state \<Rightarrow> (string, 'b state) outcome" where
  "TC e defaultLocalized ident s = Localize e defaultLocalized ident None 0 s"

definition T :: "'b env \<Rightarrow> string \<Rightarrow> 'b state \<Rightarrow> (string, 'b state) outcome" where
  "T e ident s = TC e [] ident s"

definition TCData ::
  "'b env \<Rightarrow> string \<Rightarrow> string \<Rightarrow> I18nData option \<Rightarrow> 'b state \<Rightarrow> (string, 'b state) outcome" where
  "TCData e defaultLocalized ident data s =
     (case data of
        Some d \<Rightarrow> Localize e defaultLocalized ident (DataMap d) (PluralCount d) s
      | None \<Rightarrow> Localize e defaultLocalized ident None 0 s)"

definition TData :: "'b env \<Rightarrow> string \<Rightarrow> I18nData option \<Rightarrow> 'b state \<Rightarrow> (string, 'b state) outcome" where
  "TData e ident data s = TCData e [] ident data s"

section \<open>The switch-notification registry (map revisions)\<close>

definition getNewCallbackDataId :: "'b state \<Rightarrow> 32 word \<times> 'b state" where
  "getNewCallbackDataId s =
     (currentCallbackDataId s + 1, s\<lparr>currentCallbackDataId := currentCallbackDataId s + 1\<rparr>)"

text \<open>
  \<^verbatim>\<open>AddSwitchCallback\<close>: the lookup key is the field \<^verbatim>\<open>CallbackId\<close> of the entry handed in; the
  key stored under is the counter after its increment. Inside the \<^verbatim>\<open>if\<close>, \<^verbatim>\<open>data\<close> is the entry
  already in the map.
\<close>

definition AddSwitchCallback :: "CallbackData option \<Rightarrow> 'b state \<Rightarrow> (unit, 'b state) outcome" where
  "AddSwitchCallback data s =
     (case data of
        None \<Rightarrow> Panicked NilPointerDereference s
      | Some d \<Rightarrow>
          (case callbackDataMap s (CallbackId d) of
             Some existing \<Rightarrow>
               (case existing of
                  None \<Rightarrow> Panicked NilPointerDereference s
                | Some d' \<Rightarrow>
                    if \<not> notOrigin d' then err ''[i18n] cannot add duplicated callback'' [] s
                    else Returned () s)
           | None \<Rightarrow>
               (case getNewCallbackDataId s of
                  (_, s1) \<Rightarrow>
                    Returned ()
                      (s1\<lparr>callbackDataMap :=
                            (callbackDataMap s1)(currentCallbackDataId s1 \<mapsto> data)\<rparr>))))"

text \<open>
  \<^verbatim>\<open>TCDataCallback\<close> (the same in both map revisions): it resolves the text, hands it to the
  caller's callback and registers a closure over its own arguments, with \<^verbatim>\<open>CallbackId\<close> zero
  and \<^verbatim>\<open>notOrigin\<close> set. \<^verbatim>\<open>TCallback\<close>, \<^verbatim>\<open>TCCallback\<close> and \<^verbatim>\<open>TDataCallback\<close> are calls of it.
\<close>

definition TCDataCallback ::
  "'b env \<Rightarrow> string \<Rightarrow> string \<Rightarrow> I18nData option \<Rightarrow> nat option \<Rightarrow> 'b state
     \<Rightarrow> (unit, 'b state) outcome" where
  "TCDataCallback e defaultLocalized ident data callback s =
     and_then
       (case data of
          Some d \<Rightarrow> Localize e defaultLocalized ident (DataMap d) (PluralCount d) s
        | None \<Rightarrow> Localize e defaultLocalized ident None 0 s)
       (\<lambda>localized s1.
          case callback of
            None \<Rightarrow> Panicked NilPointerDereference s1
          | Some c \<Rightarrow>
              AddSwitchCallback
                (Some \<lparr>Callback = Some (Resubscribe defaultLocalized ident data callback),
                       CallbackId = 0, notOrigin = True\<rparr>)
                (s1\<lparr>invoked := invoked s1 @ [Rendered c localized]\<rparr>))"


definition TCCallback ::
  "'b env \<Rightarrow> string \<Rightarrow> string \<Rightarrow> nat option \<Rightarrow> 'b state \<Rightarrow> (unit, 'b state) outcome" where
  "TCCallback e defaultLocalized ident callback s =
     TCDataCallback e defaultLocalized ident None callback s"


text \<open>The call \<^verbatim>\<open>callbackData.Callback()\<close> of a func value that is not nil.\<close>

fun run_callback :: "'b env \<Rightarrow> callback \<Rightarrow> 'b state \<Rightarrow> (unit, 'b state) outcome" where
  "run_callback e (Caller n) s = Returned () (s\<lparr>invoked := invoked s @ [Called n]\<rparr>)"
| "run_callback e (Resubscribe defaultLocalized ident data callback) s =
     TCDataCallback e defaultLocalized ident data callback s"

text \<open>
  \<^verbatim>\<open>for _, callbackData := range callbackDataMap\<close>. Go produces every entry that is in the
  map when the loop starts exactly once, in an order it leaves unspecified; an entry
  created during the loop may be produced or skipped. The parameter \<open>order\<close> lists the
  keys in the order in which \<^verbatim>\<open>range\<close> produces them; the entry of a key is read from the
  registry as it is when the key's turn comes, so that an entry added by a callback is
  run when \<open>order\<close> lists its key after the key of that callback.
\<close>

fun range_callbackDataMap ::
  "'b env \<Rightarrow> 32 word list \<Rightarrow> 'b state \<Rightarrow> (unit, 'b state) outcome" where
  "range_callbackDataMap e [] s = Returned () s"
| "range_callbackDataMap e (k # ks) s =
     (case callbackDataMap s k of
        Some (Some callbackData) \<Rightarrow>
          (case Callback callbackData of
             Some c \<Rightarrow>
               (case run_callback e c s of
                  Returned _ s1 \<Rightarrow> range_callbackDataMap e ks s1
                | Panicked p s1 \<Rightarrow> Panicked p s1
                | Exited s1 \<Rightarrow> Exited s1)
           | None \<Rightarrow> range_callbackDataMap e ks s)
      | Some None \<Rightarrow> range_callbackDataMap e ks s
      | None \<Rightarrow> range_callbackDataMap e ks s)"

definition SwitchLanguage ::
  "'b env \<Rightarrow> 32 word list \<Rightarrow> Lang option \<Rightarrow> 'b state \<Rightarrow> (error option, 'b state) outcome" where
  "SwitchLanguage e order lang s =
     and_then (LoadLanguage e lang s)
       (\<lambda>er s1.
          case er of
            Some x \<Rightarrow> Returned (Some x) s1
          | None \<Rightarrow>
              (case lang of
                 None \<Rightarrow> Panicked NilPointerDereference s1
               | Some l \<Rightarrow>
                   and_then
                     (info ''[i18n] switched to new language: %s'' [IString (FullName l)]
                        (s1\<lparr>Localizer := Some (bundle_ptr s1, Tag_String (Tag l)),
                            Language := lang\<rparr>))
                     (\<lambda>_ s2.
                        and_then (range_callbackDataMap e order s2)
                          (\<lambda>_ s3. Returned None s3))))"

section \<open>Package discovery (newest revision)\<close>

definition ReadLangFromFileName ::
  "'b env \<Rightarrow> string \<Rightarrow> 'b state \<Rightarrow> (Lang option, 'b state) outcome" where
  "ReadLangFromFileName e fileName s =
     (case file_system e fileName of
        None \<Rightarrow>
          and_then (err ''[i18n] ReadLangFromFileName error: %v'' [IError (open_error fileName)] s)
            (\<lambda>_ s1. Panicked (PanicValue (open_error fileName)) s1)
      | Some content \<Rightarrow>
          (case ReadString content of
             (topLine, Some er) \<Rightarrow>
               and_then (err ''[i18n] ReadLangFromFileName error: %v'' [IError er] s)
                 (\<lambda>_ s1. Returned None s1)
           | (topLine, None) \<Rightarrow>
               if length (ReadLangLabel topLine) < 2 then
                 and_then
                   (err ''[i18n] ReadLangFromFileName file is invalid: %s'' [IString fileName] s)
                   (\<lambda>_ s1. Returned None s1)
               else
                 (case parseTags e (ReadLangLabel topLine ! 0) of
                    [] \<Rightarrow> Panicked IndexOutOfRange s
                  | t # ts \<Rightarrow>
                      Returned
                        (Some \<lparr>Name = ReadLangLabel topLine ! 1, Tag = t,
                               FileName = fileName, Data = None\<rparr>) s)))"

text \<open>\<^verbatim>\<open>(*option.Data).(string)\<close>: the pointer is dereferenced, then the type is asserted.\<close>

fun Data_string :: "iface option \<Rightarrow> panic + string" where
  "Data_string None = Inl NilPointerDereference"
| "Data_string (Some (IString x)) = Inr x"
| "Data_string (Some INil) = Inl TypeAssertionFailed"
| "Data_string (Some (IBool b)) = Inl TypeAssertionFailed"
| "Data_string (Some (IInt i)) = Inl TypeAssertionFailed"
| "Data_string (Some (IError x)) = Inl TypeAssertionFailed"

text \<open>The option loop of \<^verbatim>\<open>PackageListByPatternFunc\<close>: the last \<^verbatim>\<open>PackagePattern\<close> wins.\<close>

fun pattern_option :: "Option list \<Rightarrow> string \<Rightarrow> panic + string" where
  "pattern_option [] langFilesPattern = Inr langFilesPattern"
| "pattern_option (option # options) langFilesPattern =
     (if OptionType option = PackagePattern then
        (case Data_string (OptData option) of
           Inl p \<Rightarrow> Inl p
         | Inr x \<Rightarrow> pattern_option options x)
      else pattern_option options langFilesPattern)"

text \<open>The loop over the files that \<^verbatim>\<open>Glob\<close> found.\<close>

fun read_packages ::
  "'b env \<Rightarrow> string list \<Rightarrow> Lang list \<Rightarrow> 'b state \<Rightarrow> (Lang list, 'b state) outcome" where
  "read_packages e [] languages s = Returned languages s"
| "read_packages e (langFile # packages) languages s =
     (case ReadLangFromFileName e langFile s of
        Returned None s1 \<Rightarrow> read_packages e packages languages s1
      | Returned (Some lang) s1 \<Rightarrow>
          (case info ''[i18n] Found language: %s''
                  [IString (Name lang @ '' ('' @ Tag_String (Tag lang) @ '')'')] s1 of
             Returned _ s2 \<Rightarrow> read_packages e packages (languages @ [lang]) s2
           | Panicked p s2 \<Rightarrow> Panicked p s2
           | Exited s2 \<Rightarrow> Exited s2)
      | Panicked p s1 \<Rightarrow> Panicked p s1
      | Exited s1 \<Rightarrow> Exited s1)"

definition PackageListByPatternFunc ::
  "'b env \<Rightarrow> Option list \<Rightarrow> 'b state \<Rightarrow> (Lang list \<times> error option, 'b state) outcome" where
  "PackageListByPatternFunc e options s =
     (case pattern_option options [] of
        Inl p \<Rightarrow> Panicked p s
      | Inr langFilesPattern \<Rightarrow>
          if length langFilesPattern = 0 then
            and_then (err ''[i18n] PackageList cannot find pattern'' [] s)
              (\<lambda>_ s1. Returned ([], Some ''[i18n] PackageList cannot find pattern'') s1)
          else
            (case Glob e langFilesPattern of
               (packages, Some er) \<Rightarrow>
                 and_then (err (''[i18n] PackageList Glob error: '' @ er) [] s)
                   (\<lambda>_ s1. Returned ([], Some (''[i18n] PackageList Glob error: '' @ er)) s1)
             | (packages, None) \<Rightarrow>
                 and_then (read_packages e packages [] s)
                   (\<lambda>languages s1.
                      and_then
                        (info ''[i18n] Found %d language(s)'' [IInt (int (length languages))] s1)
                        (\<lambda>_ s2. Returned (languages, None) s2))))"

section \<open>Initialisation with options (newest revision)\<close>

text \<open>The local variables of \<^verbatim>\<open>InitI18nWithOptions\<close> that the option loop writes.\<close>

record optvars =
  format :: string
  langFilesPattern :: string
  existPackagePath :: bool
  pListFunc :: "nat option option"

text \<open>One turn of the option loop: the \<^verbatim>\<open>switch option.OptionType\<close>.\<close>

definition apply_option ::
  "'b env \<Rightarrow> Option \<Rightarrow> optvars \<Rightarrow> 'b state \<Rightarrow> (optvars, 'b state) outcome" where
  "apply_option e option v s =
     (case OptionType option of
        LogInfoFunc \<Rightarrow> Returned v (s\<lparr>logInfoFunc := ViaCallback (OptCallback option)\<rparr>)
      | LogErrorFunc \<Rightarrow> Returned v (s\<lparr>logErrorFunc := ViaCallback (OptCallback option)\<rparr>)
      | UnmarshalFunc \<Rightarrow>
          Returned v (s\<lparr>unmarshalFunc := UnmarshalViaCallback (OptCallback option)\<rparr>)
      | PackageSuffix \<Rightarrow>
          (case Data_string (OptData option) of
             Inl p \<Rightarrow> Panicked p s
           | Inr x \<Rightarrow>
               if existPackagePath v then
                 Returned (v\<lparr>format := x, langFilesPattern := Join e [x, ''*.'' @ x]\<rparr>) s
               else Returned (v\<lparr>format := x\<rparr>) s)
      | PackagePath \<Rightarrow>
          (case Data_string (OptData option) of
             Inl p \<Rightarrow> Panicked p s
           | Inr x \<Rightarrow>
               Returned
                 (v\<lparr>langFilesPattern := Join e [x, ''*.'' @ format v],
                    existPackagePath := True\<rparr>) s)
      | PackagePattern \<Rightarrow>
          (case Data_string (OptData option) of
             Inl p \<Rightarrow> Panicked p s
           | Inr x \<Rightarrow> Returned (v\<lparr>langFilesPattern := x\<rparr>) s)
      | PackageListFunc \<Rightarrow> Returned (v\<lparr>pListFunc := Some (OptCallback option)\<rparr>) s
      | DefaultUseSystemLanguage \<Rightarrow> Returned v s
      | OtherOptionType \<Rightarrow> Returned v s)"

fun apply_options ::
  "'b env \<Rightarrow> Option list \<Rightarrow> optvars \<Rightarrow> 'b state \<Rightarrow> (optvars, 'b state) outcome" where
  "apply_options e [] v s = Returned v s"
| "apply_options e (option # options) v s =
     (case apply_option e option v s of
        Returned v1 s1 \<Rightarrow> apply_options e options v1 s1
      | Panicked p s1 \<Rightarrow> Panicked p s1
      | Exited s1 \<Rightarrow> Exited s1)"

text \<open>The call \<^verbatim>\<open>packageListFunc()\<close>.\<close>

definition call_packageListFunc ::
  "'b env \<Rightarrow> 'b state \<Rightarrow> (Lang list \<times> error option, 'b state) outcome" where
  "call_packageListFunc e s =
     (case packageListFunc s of
        NoListFunc \<Rightarrow> Panicked NilPointerDereference s
      | ListByPattern pat \<Rightarrow>
          PackageListByPatternFunc e [NewOptionWithData PackagePattern (IString pat)] s
      | ListViaCallback None pat \<Rightarrow> Panicked NilPointerDereference s
      | ListViaCallback (Some n) pat \<Rightarrow> Returned (userPackageList e n pat) s)"

text \<open>The loop that uses the first known language whose tag is the requested one.\<close>

fun use_requested ::
  "'b env \<Rightarrow> Lang \<Rightarrow> Lang list \<Rightarrow> 'b state \<Rightarrow> (error option, 'b state) outcome" where
  "use_requested e lang [] s = Returned None s"
| "use_requested e lang (l # ls) s =
     (if Tag lang = Tag l then UseLanguage e (Some l) s else use_requested e lang ls s)"

definition InitI18nWithOptions ::
  "'b env \<Rightarrow> Lang option \<Rightarrow> Option list \<Rightarrow> 'b state \<Rightarrow> (error option, 'b state) outcome" where
  "InitI18nWithOptions e lang options s =
     and_then
       (apply_options e options
          \<lparr>format = ''lang'', langFilesPattern = Join e [''./lang/*.'' @ ''lang''],
           existPackagePath = False, pListFunc = None\<rparr>
          (s\<lparr>logInfoFunc := log_Printf, logErrorFunc := log_Fatalf,
             unmarshalFunc := toml_Unmarshal\<rparr>))
       (\<lambda>v s1.
          and_then
            (case lang of
               None \<Rightarrow>
                 and_then
                   (info ''[i18n] Not special language, default using %s (%s)''
                      [IString (Name English), IString (Tag_String (Tag English))]
                      (s1\<lparr>packageListFunc :=
                            (case pListFunc v of
                               None \<Rightarrow> ListByPattern (langFilesPattern v)
                             | Some cb \<Rightarrow> ListViaCallback cb (langFilesPattern v))\<rparr>))
                   (\<lambda>_ s2. Returned English s2)
             | Some l \<Rightarrow>
                 Returned l
                   (s1\<lparr>packageListFunc :=
                         (case pListFunc v of
                            None \<Rightarrow> ListByPattern (langFilesPattern v)
                          | Some cb \<Rightarrow> ListViaCallback cb (langFilesPattern v))\<rparr>))
            (\<lambda>l s2.
               and_then (info ''[i18n] InitI18n started'' [] (SetDefaultLang l s2))
                 (\<lambda>_ s3.
                    and_then
                      (info ''[i18n] Registered unmarshal func for %s'' [IString (format v)]
                         (new_bundle e (Tag l) (format v) (unmarshalFunc s3) s3))
                      (\<lambda>_ s4.
                         and_then (call_packageListFunc e s4)
                           (\<lambda>r s5.
                              case r of
                                (packageList, Some er) \<Rightarrow>
                                  Panicked (PanicValue (''[i18n] PackageList error: '' @ er)) s5
                              | (packageList, None) \<Rightarrow>
                                  if length packageList = 0 then
                                    and_then
                                      (err ''[i18n] Cannot load any language'' []
                                         (s5\<lparr>Languages := packageList\<rparr>))
                                      (\<lambda>_ s6.
                                         Panicked (PanicValue ''[i18n] Cannot load any language'') s6)
                                  else
                                    and_then
                                      (use_requested e l packageList
                                         (s5\<lparr>Languages := packageList\<rparr>))
                                      (\<lambda>er s6.
                                         case er of
                                           Some x \<Rightarrow> Returned (Some x) s6
                                         | None \<Rightarrow>
                                             and_then (info ''[i18n] InitI18n finished'' [] s6)
                                               (\<lambda>_ s7. Returned None s7)))))))"

section \<open>The revision of i18n.go\<close>

text \<open>\<^verbatim>\<open>fmt.Sprintf("%s (%s)", lang.Name, lang.Tag.String())\<close>.\<close>

definition langName :: "Lang \<Rightarrow> string" where
  "langName l = Name l @ '' ('' @ Tag_String (Tag l) @ '')''"

text \<open>
  \<^verbatim>\<open>readLangLabel\<close> opens the file itself and ignores the error of \<^verbatim>\<open>ReadString\<close>; the
  match is the one of \<open>ReadLangLabel\<close>.
\<close>

definition readLangLabel :: "'b env \<Rightarrow> string \<Rightarrow> 'b state \<Rightarrow> (string list, 'b state) outcome" where
  "readLangLabel e fileName s =
     (case file_system e fileName of
        None \<Rightarrow>
          and_then (err ''[i18n] readLangLabel error: %v'' [IError (open_error fileName)] s)
            (\<lambda>_ s1. Panicked (PanicValue (open_error fileName)) s1)
      | Some content \<Rightarrow> Returned (ReadLangLabel (fst (ReadString content))) s)"

text \<open>
  The loop of \<^verbatim>\<open>initI18n\<close> over the files of \<^verbatim>\<open>Glob\<close>. Its value says whether the function
  returned from inside the loop (the \<^verbatim>\<open>return\<close> after a failed load).
\<close>

fun initI18n_loop :: "'b env \<Rightarrow> string list \<Rightarrow> 'b state \<Rightarrow> (bool, 'b state) outcome" where
  "initI18n_loop e [] s = Returned False s"
| "initI18n_loop e (langFile # languages) s =
     (case readLangLabel e langFile s of
        Returned labels s1 \<Rightarrow>
          if length labels < 2 then
            (case err ''[i18n] InitI18n readLangLabel file is invalid: %s'' [IString langFile] s1 of
               Returned _ s2 \<Rightarrow> initI18n_loop e languages s2
             | Panicked p s2 \<Rightarrow> Panicked p s2
             | Exited s2 \<Rightarrow> Exited s2)
          else
            (case parseTags e (labels ! 0) of
               [] \<Rightarrow> Panicked IndexOutOfRange s1
             | t # ts \<Rightarrow>
                 (case info ''[i18n] Found language: %s''
                         [IString (langName \<lparr>Name = labels ! 1, Tag = t,
                                              FileName = langFile, Data = None\<rparr>)] s1 of
                    Returned _ s2 \<Rightarrow>
                      if Language s2 = None \<and>
                         (case DefaultLang s2 of None \<Rightarrow> False | Some d \<Rightarrow> Tag d = t)
                      then
                        (case bundle_LoadMessageFile e langFile
                                (s2\<lparr>Language := Some \<lparr>Name = labels ! 1, Tag = t,
                                                        FileName = langFile, Data = None\<rparr>\<rparr>) of
                           Returned (Some er) s3 \<Rightarrow>
                             and_then
                               (err (''[i18n] initI18n load language file '' @ [CHR 0x22] @ ''%s''
                                       @ [CHR 0x22] @ '' error: %v'')
                                  [IString (langName \<lparr>Name = labels ! 1, Tag = t,
                                                       FileName = langFile, Data = None\<rparr>),
                                   IError er] s3)
                               (\<lambda>_ s4. Returned True s4)
                         | Returned None s3 \<Rightarrow>
                             (case info ''[i18n] Loaded default language %s''
                                     [IString (langName \<lparr>Name = labels ! 1, Tag = t,
                                                          FileName = langFile, Data = None\<rparr>)]
                                     (s3\<lparr>Localizer := Some (bundle_ptr s3, Tag_String t),
                                         Languages :=
                                           \<lparr>Name = labels ! 1, Tag = t,
                                            FileName = langFile, Data = None\<rparr> # Languages s3\<rparr>) of
                                Returned _ s4 \<Rightarrow> initI18n_loop e languages s4
                              | Panicked p s4 \<Rightarrow> Panicked p s4
                              | Exited s4 \<Rightarrow> Exited s4)
                         | Panicked p s3 \<Rightarrow> Panicked p s3
                         | Exited s3 \<Rightarrow> Exited s3)
                      else
                        initI18n_loop e languages
                          (s2\<lparr>Languages :=
                                Languages s2 @ [\<lparr>Name = labels ! 1, Tag = t,
                                                 FileName = langFile, Data = None\<rparr>]\<rparr>)
                  | Panicked p s2 \<Rightarrow> Panicked p s2
                  | Exited s2 \<Rightarrow> Exited s2))
      | Panicked p s1 \<Rightarrow> Panicked p s1
      | Exited s1 \<Rightarrow> Exited s1)"

definition initI18n ::
  "'b env \<Rightarrow> Lang \<Rightarrow> string \<Rightarrow> unmarshal \<Rightarrow> string \<Rightarrow> 'b state \<Rightarrow> (unit, 'b state) outcome" where
  "initI18n e lang format_name unmarshal_func pat s =
     and_then (info ''[i18n] InitI18n started'' [] s)
       (\<lambda>_ s1.
          and_then
            (case snd (Glob e pat) of
               Some er \<Rightarrow>
                 err ''[i18n] InitI18n Glob error: %v'' [IError er]
                   (new_bundle e (Tag lang) format_name unmarshal_func s1)
             | None \<Rightarrow> Returned () (new_bundle e (Tag lang) format_name unmarshal_func s1))
            (\<lambda>_ s2.
               and_then (initI18n_loop e (fst (Glob e pat)) s2)
                 (\<lambda>returned s3.
                    if returned then Returned () s3
                    else
                      and_then
                        (info ''[i18n] Loaded %d language(s)''
                           [IInt (int (length (Languages s3)))] s3)
                        (\<lambda>_ s4.
                           if Language s4 = None then
                             and_then (err ''[i18n] Cannot load any language'' [] s4)
                               (\<lambda>_ s5.
                                  Panicked (PanicValue ''[i18n] Cannot load any language'') s5)
                           else info ''[i18n] InitI18n finished'' [] s4))))"

text \<open>
  \<^verbatim>\<open>InitI18nWithConfig\<close>. The arguments of the ``Not special language'' log call are read
  from \<^verbatim>\<open>DefaultLang\<close>, before the call and before \<^verbatim>\<open>SetDefaultLang\<close>.
\<close>

definition InitI18nWithConfig ::
  "'b env \<Rightarrow> Lang option \<Rightarrow> logfn \<Rightarrow> logfn \<Rightarrow> string \<Rightarrow> unmarshal \<Rightarrow> string \<Rightarrow> 'b state
     \<Rightarrow> (unit, 'b state) outcome" where
  "InitI18nWithConfig e lang log_info log_error format_name unmarshal_func pat s =
     and_then
       (case lang of
          None \<Rightarrow>
            (case DefaultLang s of
               None \<Rightarrow>
                 Panicked NilPointerDereference
                   (s\<lparr>logInfoFunc := (if log_info = NoFunc then log_Printf else log_info),
                      logErrorFunc := (if log_error = NoFunc then log_Fatalf else log_error)\<rparr>)
             | Some d \<Rightarrow>
                 and_then
                   (info ''[i18n] Not special language, default using %s (%s)''
                      [IString (Name d), IString (Tag_String (Tag d))]
                      (s\<lparr>logInfoFunc := (if log_info = NoFunc then log_Printf else log_info),
                         logErrorFunc := (if log_error = NoFunc then log_Fatalf else log_error)\<rparr>))
                   (\<lambda>_ s1. Returned SimplifiedChinese s1))
        | Some l \<Rightarrow>
            Returned l
              (s\<lparr>logInfoFunc := (if log_info = NoFunc then log_Printf else log_info),
                 logErrorFunc := (if log_error = NoFunc then log_Fatalf else log_error)\<rparr>))
       (\<lambda>l s1.
          initI18n e l
            (if length format_name = 0 then ''lang'' else format_name)
            (if unmarshal_func = NoUnmarshal then toml_Unmarshal else unmarshal_func)
            (if length pat = 0 then ''./lang/*.lang'' else pat)
            (SetDefaultLang l s1))"

definition InitI18n ::
  "'b env \<Rightarrow> Lang option \<Rightarrow> logfn \<Rightarrow> logfn \<Rightarrow> 'b state \<Rightarrow> (unit, 'b state) outcome" where
  "InitI18n e lang log_info log_error s =
     InitI18nWithConfig e lang log_info log_error [] NoUnmarshal [] s"

definition SwitchLanguage_v1 ::
  "'b env \<Rightarrow> 32 word list \<Rightarrow> Lang option \<Rightarrow> 'b state \<Rightarrow> (unit, 'b state) outcome" where
  "SwitchLanguage_v1 e order lang s =
     (case lang of
        None \<Rightarrow> Panicked NilPointerDereference s
      | Some l \<Rightarrow>
          and_then (bundle_LoadMessageFile e (FileName l) s)
            (\<lambda>er s1.
               case er of
                 Some x \<Rightarrow>
                   err (''[i18n] SwitchLanguage load language file '' @ [CHR 0x22] @ ''%s''
                          @ [CHR 0x22] @ '' error: %v'')
                     [IString (langName l), IError x] s1
               | None \<Rightarrow>
                   and_then
                     (info ''[i18n] switched to new language: %s'' [IString (langName l)]
                        (s1\<lparr>Localizer := Some (bundle_ptr s1, Tag_String (Tag l)),
                            Language := lang\<rparr>))
                     (\<lambda>_ s2. range_callbackDataMap e order s2)))"

section \<open>The slice revision\<close>




section \<open>The state at program start and an example world\<close>

text \<open>
  After the package's \<^verbatim>\<open>init()\<close>: every pointer and function variable is nil, the registry
  is the empty map, the counter is zero. \<open>b0\<close> fills the unallocated heap.
\<close>

definition initial_state :: "'b \<Rightarrow> 'b state" where
  "initial_state b0 =
     \<lparr>Localizer = None, Languages = [], Language = None, DefaultLang = None,
      logInfoFunc = NoFunc, logErrorFunc = NoFunc, unmarshalFunc = NoUnmarshal,
      packageListFunc = NoListFunc, bundle_ptr = None, callbackDataMap = Map.empty,
      currentCallbackDataId = 0, SwitchCallbacks = [], bundle_count = 0,
      bundles = (\<lambda>_. b0), logged = [], invoked = []\<rparr>"

text \<open>
  A small world to run the functions in. Three directories: \<^verbatim>\<open>lang\<close> holds an English, a
  French and a Chinese package, of which the French body does not parse; \<^verbatim>\<open>mixed\<close> holds a
  file without a label before the English package; \<^verbatim>\<open>odd\<close> holds a package whose label
  has a tag string that does not parse. A bundle's content is the list of the files loaded into it.
\<close>

definition ex_label :: "string \<Rightarrow> string \<Rightarrow> string" where
  "ex_label tag_string display_name =
     ''# [i18n] <'' @ tag_string @ ''> <'' @ display_name @ ''>'' @ [CHR 0x0A]"

definition ex_files :: "string \<rightharpoonup> string" where
  "ex_files =
     [''lang/en.lang'' \<mapsto> ex_label ''en'' ''English'' @ ''greeting = Hello'' @ [CHR 0x0A],
      ''lang/fr.lang'' \<mapsto> ex_label ''fr'' ''French'' @ ''greeting = '' @ [CHR 0x0A],
      ''lang/zh.lang'' \<mapsto> ex_label ''zh-Hans'' ''Chinese'' @ ''greeting = Nihao'' @ [CHR 0x0A],
      ''mixed/a.lang'' \<mapsto> ''greeting = Hello'' @ [CHR 0x0A],
      ''mixed/en.lang'' \<mapsto> ex_label ''en'' ''English'' @ ''greeting = Hello'' @ [CHR 0x0A],
      ''odd/xx.lang'' \<mapsto> ex_label ''!!'' ''Nothing'' @ ''greeting = Hello'' @ [CHR 0x0A]]"

definition ex_Glob :: "string \<Rightarrow> string list \<times> error option" where
  "ex_Glob pat =
     (if pat = ''lang/*.lang'' then ([''lang/en.lang'', ''lang/fr.lang'', ''lang/zh.lang''], None)
      else if pat = ''mixed/*.lang'' then ([''mixed/a.lang'', ''mixed/en.lang''], None)
      else if pat = ''lang/fr*.lang'' then ([''lang/fr.lang''], None)
      else if pat = ''mixed/a*.lang'' then ([''mixed/a.lang''], None)
      else if pat = ''odd/*.lang'' then ([''odd/xx.lang''], None)
      else ([], None))"

fun ex_Join :: "string list \<Rightarrow> string" where
  "ex_Join [] = []"
| "ex_Join [a] = (if take 2 a = ''./'' then drop 2 a else a)"
| "ex_Join (a # b # r) = ex_Join ((a @ ''/'' @ b) # r)"

definition ex_ParseAcceptLanguage :: "string \<Rightarrow> language_Tag list \<times> error option" where
  "ex_ParseAcceptLanguage x =
     (if x = [] then ([], None)
      else if x = ''en'' \<or> x = ''fr'' \<or> x = ''zh-Hans'' then ([MkTag x], None)
      else ([], Some ''language: tag is not well-formed''))"

definition ex_ParseMessageFileBytes ::
  "string list \<Rightarrow> string \<Rightarrow> string \<Rightarrow> string list \<times> error option" where
  "ex_ParseMessageFileBytes b buf path =
     (if path = ''lang/fr.lang'' then (b, Some ''toml: expected value'') else (b @ [path], None))"

definition ex_Localize :: "string list \<Rightarrow> string \<Rightarrow> LocalizeConfig \<Rightarrow> string \<times> error option" where
  "ex_Localize b lng cfg =
     (if b \<noteq> [] \<and> DefaultMessageID cfg = ''greeting'' then
        (if lng = ''en'' then (''Hello'', None) else (''Nihao'', None))
      else ([], Some (''message '' @ DefaultMessageID cfg @ '' not found'')))"

definition ex_env :: "string list env" where
  "ex_env =
     \<lparr>file_system = ex_files, Glob = ex_Glob, Join = ex_Join,
      ParseAcceptLanguage = ex_ParseAcceptLanguage,
      NewBundle = (\<lambda>tag. []),
      RegisterUnmarshalFunc = (\<lambda>b format_name f. b),
      ParseMessageFileBytes = ex_ParseMessageFileBytes,
      Localizer_Localize = ex_Localize,
      userPackageList = (\<lambda>n pat. ([], None))\<rparr>"

definition ex_en :: Lang where
  "ex_en = \<lparr>Name = ''English'', Tag = MkTag ''en'', FileName = ''lang/en.lang'', Data = None\<rparr>"

definition ex_fr :: Lang where
  "ex_fr = \<lparr>Name = ''French'', Tag = MkTag ''fr'', FileName = ''lang/fr.lang'', Data = None\<rparr>"

definition ex_zh :: Lang where
  "ex_zh = \<lparr>Name = ''Chinese'', Tag = MkTag ''zh-Hans'', FileName = ''lang/zh.lang'', Data = None\<rparr>"

text \<open>
  The state after \<^verbatim>\<open>InitI18nWithOptions(&English)\<close> in this world: no options, so the sinks
  are \<^verbatim>\<open>log.Printf\<close> and \<^verbatim>\<open>log.Fatalf\<close>. \<open>ex_quiet\<close> is the same state with the error sink
  replaced by a function of the caller.
\<close>

definition ex_ready :: "string list state" where
  "ex_ready =
     \<lparr>Localizer = Some (Some 0, ''en''), Languages = [ex_en, ex_fr, ex_zh],
      Language = Some ex_en, DefaultLang = Some English,
      logInfoFunc = log_Printf, logErrorFunc = log_Fatalf, unmarshalFunc = toml_Unmarshal,
      packageListFunc = ListByPattern ''lang/*.lang'', bundle_ptr = Some 0,
      callbackDataMap = Map.empty, currentCallbackDataId = 0, SwitchCallbacks = [],
      bundle_count = 1, bundles = (\<lambda>_. [])(0 := [''lang/en.lang'']),
      logged =
        [(Stderr, ''[i18n] InitI18n started'', []),
         (Stderr, ''[i18n] Registered unmarshal func for %s'', [IString ''lang'']),
         (Stderr, ''[i18n] Found language: %s'', [IString ''English (en)'']),
         (Stderr, ''[i18n] Found language: %s'', [IString ''French (fr)'']),
         (Stderr, ''[i18n] Found language: %s'', [IString ''Chinese (zh-Hans)'']),
         (Stderr, ''[i18n] Found %d language(s)'', [IInt 3]),
         (Stderr, ''[i18n] Used language %s'', [IString ''English (en)'']),
         (Stderr, ''[i18n] InitI18n finished'', [])],
      invoked = []\<rparr>"

definition ex_quiet :: "string list state" where
  "ex_quiet = ex_ready\<lparr>logErrorFunc := UserFunc 1\<rparr>"







section \<open>Notions used to state the properties\<close>













section \<open>Facts about the sinks and the example world\<close>

lemma call_log_returns:
  "returns f \<Longrightarrow> call_log f fm a s = Returned () (s\<lparr>logged := logged s @ written f fm a\<rparr>)"
  by (induction f fm a s rule: call_log.induct) simp_all

lemma call_log_not_returns:
  "\<not> returns f \<Longrightarrow> \<not> is_Returned (call_log f fm a s)"
  by (induction f fm a s rule: call_log.induct) simp_all

lemma call_log_final:
  "final_state (call_log f fm a s) = s\<lparr>logged := logged s @ written f fm a\<rparr>"
  by (induction f fm a s rule: call_log.induct) simp_all

lemma err_returns:
  "returns (logErrorFunc s) \<Longrightarrow>
     err fm a s = Returned () (s\<lparr>logged := logged s @ written (logErrorFunc s) fm a\<rparr>)"
  by (simp add: err_def call_log_returns)


lemma err_final:
  "final_state (err fm a s) = s\<lparr>logged := logged s @ written (logErrorFunc s) fm a\<rparr>"
  by (simp add: err_def call_log_final)


lemma err_not_returns: "\<not> returns (logErrorFunc s) \<Longrightarrow> \<not> is_Returned (err fm a s)"
  by (simp add: err_def call_log_not_returns)

lemma ex_env_sel:
  "file_system ex_env = ex_files" "Glob ex_env = ex_Glob" "Join ex_env = ex_Join"
  "ParseAcceptLanguage ex_env = ex_ParseAcceptLanguage"
  "NewBundle ex_env = (\<lambda>tag. [])"
  "RegisterUnmarshalFunc ex_env = (\<lambda>b format_name f. b)"
  "ParseMessageFileBytes ex_env = ex_ParseMessageFileBytes"
  "Localizer_Localize ex_env = ex_Localize"
  "userPackageList ex_env = (\<lambda>n pat. ([], None))"
  by (simp_all add: ex_env_def)

lemma ex_read_en: "ReadLangFromFileName ex_env ''lang/en.lang'' s = Returned (Some ex_en) s"
  by (simp add: ReadLangFromFileName_def ex_env_sel ex_files_def ex_label_def
      ReadLangLabel_def i18nLabelRegexp_def parseTags_def ex_ParseAcceptLanguage_def ex_en_def)

lemma ex_read_fr: "ReadLangFromFileName ex_env ''lang/fr.lang'' s = Returned (Some ex_fr) s"
  by (simp add: ReadLangFromFileName_def ex_env_sel ex_files_def ex_label_def
      ReadLangLabel_def i18nLabelRegexp_def parseTags_def ex_ParseAcceptLanguage_def ex_fr_def)

lemma ex_read_zh: "ReadLangFromFileName ex_env ''lang/zh.lang'' s = Returned (Some ex_zh) s"
  by (simp add: ReadLangFromFileName_def ex_env_sel ex_files_def ex_label_def
      ReadLangLabel_def i18nLabelRegexp_def parseTags_def ex_ParseAcceptLanguage_def ex_zh_def)

lemma ex_load_en:
  "bundle_ptr s = Some p \<Longrightarrow>
   bundle_LoadMessageFile ex_env ''lang/en.lang'' s =
     Returned None (s\<lparr>bundles := (bundles s)(p := bundles s p @ [''lang/en.lang''])\<rparr>)"
  by (simp add: bundle_LoadMessageFile_def bundle_ParseMessageFileBytes_def ex_env_sel
      ex_files_def ex_ParseMessageFileBytes_def)


lemma ex_load_fr:
  "bundle_ptr s = Some p \<Longrightarrow>
   bundle_LoadMessageFile ex_env ''lang/fr.lang'' s =
     Returned (Some ''toml: expected value'') (s\<lparr>bundles := (bundles s)(p := bundles s p)\<rparr>)"
  by (simp add: bundle_LoadMessageFile_def bundle_ParseMessageFileBytes_def ex_env_sel
      ex_files_def ex_ParseMessageFileBytes_def)

lemma ex_init: "InitI18nWithOptions ex_env (Some English) [] (initial_state []) = Returned None ex_ready"
  by (simp add: InitI18nWithOptions_def initial_state_def new_bundle_def SetDefaultLang_def info_def
      call_packageListFunc_def PackageListByPatternFunc_def NewOptionWithData_def
      ex_read_en ex_read_fr ex_read_zh UseLanguage_def LoadLanguage_def ex_load_en
      ex_ready_def English_def FullName_def
      ex_env_sel ex_Glob_def ex_en_def ex_fr_def ex_zh_def)

lemma and_then_const_final:
  "final_state (and_then m (\<lambda>_ s'. Returned r s')) = final_state m"
  by (cases m) simp_all

lemma bundle_ParseMessageFileBytes_Returned:
  "bundle_ParseMessageFileBytes e buf path s = Returned r sf \<Longrightarrow> sf = s\<lparr>bundles := bundles sf\<rparr>"
  by (cases "bundle_ptr s"; cases "ParseMessageFileBytes e (bundles s (the (bundle_ptr s))) buf path")
     (simp_all add: bundle_ParseMessageFileBytes_def, force)

lemma bundle_LoadMessageFile_Returned:
  assumes "bundle_LoadMessageFile e path s = Returned r sf"
  shows "sf = s\<lparr>bundles := bundles sf\<rparr>"
proof (cases "file_system e path")
  case None
  with assms show ?thesis by (simp add: bundle_LoadMessageFile_def)
next
  case (Some buf)
  with assms have "bundle_ParseMessageFileBytes e buf path s = Returned r sf"
    by (simp add: bundle_LoadMessageFile_def)
  then show ?thesis by (rule bundle_ParseMessageFileBytes_Returned)
qed

lemma failed_load_outcome:
  assumes "sf = s\<lparr>bundles := b\<rparr>"
  shows "final_state (and_then (err m [] sf) (\<lambda>_ s2. Returned (Some m) s2))
           = sf\<lparr>logged := logged s @ written (logErrorFunc s) m []\<rparr>"
  using assms by (simp add: and_then_const_final err_final)

lemma ex_quiet_sel:
  "Localizer ex_quiet = Some (Some 0, ''en'')" "Language ex_quiet = Some ex_en"
  "logErrorFunc ex_quiet = UserFunc 1" "logInfoFunc ex_quiet = log_Printf"
  "bundle_ptr ex_quiet = Some 0" "callbackDataMap ex_quiet = Map.empty"
  "currentCallbackDataId ex_quiet = 0" "invoked ex_quiet = []" "SwitchCallbacks ex_quiet = []"
  "bundles ex_quiet = (\<lambda>_. [])(0 := [''lang/en.lang''])"
  by (simp_all add: ex_quiet_def ex_ready_def)

lemma ex_ready_sel:
  "Localizer ex_ready = Some (Some 0, ''en'')" "Language ex_ready = Some ex_en"
  "logErrorFunc ex_ready = log_Fatalf" "logInfoFunc ex_ready = log_Printf"
  "bundle_ptr ex_ready = Some 0" "callbackDataMap ex_ready = Map.empty"
  "currentCallbackDataId ex_ready = 0" "invoked ex_ready = []" "SwitchCallbacks ex_ready = []"
  "bundles ex_ready = (\<lambda>_. [])(0 := [''lang/en.lang''])"
  by (simp_all add: ex_ready_def)

lemma ex_lang_sel:
  "FileName ex_fr = ''lang/fr.lang''" "Data ex_fr = None" "Name ex_fr = ''French''"
  "Tag ex_fr = MkTag ''fr''"
  "FileName ex_zh = ''lang/zh.lang''" "Data ex_zh = None" "Name ex_zh = ''Chinese''"
  "Tag ex_zh = MkTag ''zh-Hans''"
  by (simp_all add: ex_fr_def ex_zh_def)

lemma ex_load_fr_quiet:
  "bundle_LoadMessageFile ex_env ''lang/fr.lang'' ex_quiet
     = Returned (Some ''toml: expected value'') ex_quiet"
  by (simp add: ex_load_fr [OF ex_quiet_sel(5)])

lemma ex_load_fr_ready:
  "bundle_LoadMessageFile ex_env ''lang/fr.lang'' ex_ready
     = Returned (Some ''toml: expected value'') ex_ready"
  by (simp add: ex_load_fr [OF ex_ready_sel(5)])




section \<open>Facts about discovery\<close>
















section \<open>Facts about initialisation\<close>


















section \<open>Facts about the registry\<close>





































section \<open>Resolution\<close>

text \<open>
  Claim C9. While the package-level \<open>Localizer\<close> is nil (no initialisation has set it),
  \<^verbatim>\<open>Localize\<close> and each of \<^verbatim>\<open>T\<close>, \<^verbatim>\<open>TC\<close>, \<^verbatim>\<open>TData\<close>, \<^verbatim>\<open>TCData\<close> dereference the nil
  pointer and panic, for every argument, with the state untouched.
\<close>

theorem Localize_nil_Localizer_panics:
  "Localizer s = None \<Longrightarrow>
     Localize e d i vars n s = Panicked NilPointerDereference s \<and>
     T e i s = Panicked NilPointerDereference s \<and>
     TC e d i s = Panicked NilPointerDereference s \<and>
     TData e i dt s = Panicked NilPointerDereference s \<and>
     TCData e d i dt s = Panicked NilPointerDereference s"
  by (simp add: Localize_def T_def TC_def TData_def TCData_def split: option.split)

theorem Localize_nil_Localizer_panics_witness:
  "Localizer (initial_state ([] :: string list)) = None \<and>
   Localize ex_env ''fallback'' ''greeting'' None 0 (initial_state [])
     = Panicked NilPointerDereference (initial_state []) \<and>
   T ex_env ''greeting'' (initial_state []) = Panicked NilPointerDereference (initial_state []) \<and>
   TC ex_env ''fallback'' ''greeting'' (initial_state [])
     = Panicked NilPointerDereference (initial_state []) \<and>
   TData ex_env ''greeting'' None (initial_state [])
     = Panicked NilPointerDereference (initial_state []) \<and>
   TCData ex_env ''fallback'' ''greeting'' None (initial_state [])
     = Panicked NilPointerDereference (initial_state [])"
proof -
  have h: "Localizer (initial_state ([] :: string list)) = None"
    by (simp add: initial_state_def)
  show ?thesis
    using h Localize_nil_Localizer_panics [OF h, of ex_env "''fallback''" "''greeting''" None 0 None]
    by simp
qed

text \<open>
  Claim C2, as the code has it. When \<^verbatim>\<open>Localizer.Localize\<close> reports an error and the
  error-log sink hands control back, \<^verbatim>\<open>Localize\<close> logs one line and returns the caller's
  default text; \<^verbatim>\<open>T\<close>, \<^verbatim>\<open>TC\<close>, \<^verbatim>\<open>TData\<close> and \<^verbatim>\<open>TCData\<close> are calls of \<^verbatim>\<open>Localize\<close> (with the
  empty default text for \<^verbatim>\<open>T\<close> and \<^verbatim>\<open>TData\<close>), so the same holds for them.
\<close>

theorem Localize_error_returns_default:
  assumes "Localizer s = Some (Some p, lng)"
    and "snd (Localizer_Localize e (bundles s p) lng
           \<lparr>DefaultMessageID = i, TemplateData = vars, ConfigPluralCount = n\<rparr>) = Some er"
    and "returns (logErrorFunc s)"
  shows "Localize e d i vars n s =
           Returned d (s\<lparr>logged := logged s @
              written (logErrorFunc s) ''[i18n] i18n error: %v'' [IError er]\<rparr>) \<and>
         TC e d i s = Localize e d i None 0 s \<and>
         T e i s = Localize e [] i None 0 s \<and>
         TCData e d i None s = Localize e d i None 0 s \<and>
         TCData e d i (Some dt) s = Localize e d i (DataMap dt) (PluralCount dt) s \<and>
         TData e i None s = Localize e [] i None 0 s \<and>
         TData e i (Some dt) s = Localize e [] i (DataMap dt) (PluralCount dt) s"
proof -
  obtain localized where
    "Localizer_Localize e (bundles s p) lng
       \<lparr>DefaultMessageID = i, TemplateData = vars, ConfigPluralCount = n\<rparr> = (localized, Some er)"
    using assms(2) by (cases "Localizer_Localize e (bundles s p) lng
       \<lparr>DefaultMessageID = i, TemplateData = vars, ConfigPluralCount = n\<rparr>") simp
  then have "Localize e d i vars n s =
      Returned d (s\<lparr>logged := logged s @
         written (logErrorFunc s) ''[i18n] i18n error: %v'' [IError er]\<rparr>)"
    using assms(1) by (simp add: Localize_def err_returns [OF assms(3)])
  then show ?thesis
    by (simp add: TC_def T_def TCData_def TData_def)
qed

theorem Localize_error_returns_default_witness:
  "Localizer ex_quiet = Some (Some 0, ''en'') \<and>
   snd (Localizer_Localize ex_env (bundles ex_quiet 0) ''en''
          \<lparr>DefaultMessageID = ''missing.key'', TemplateData = None, ConfigPluralCount = 0\<rparr>)
     = Some ''message missing.key not found'' \<and>
   returns (logErrorFunc ex_quiet) \<and>
   Localize ex_env ''fallback'' ''missing.key'' None 0 ex_quiet
     = Returned ''fallback''
         (ex_quiet\<lparr>logged := logged ex_quiet @
            [(UserSink 1, ''[i18n] i18n error: %v'', [IError ''message missing.key not found''])]\<rparr>)"
proof -
  have h1: "Localizer ex_quiet = Some (Some 0, ''en'')"
    by (simp add: ex_quiet_def ex_ready_def)
  have h2: "snd (Localizer_Localize ex_env (bundles ex_quiet 0) ''en''
          \<lparr>DefaultMessageID = ''missing.key'', TemplateData = None, ConfigPluralCount = 0\<rparr>)
     = Some ''message missing.key not found''"
    by (simp add: ex_quiet_def ex_ready_def ex_env_sel ex_Localize_def)
  have h3: "returns (logErrorFunc ex_quiet)"
    by (simp add: ex_quiet_def)
  have h4: "logErrorFunc ex_quiet = UserFunc 1"
    by (simp add: ex_quiet_def)
  show ?thesis
    using h1 h2 h3 Localize_error_returns_default [OF h1 h2 h3, of "''fallback''"]
    by (simp add: h4)
qed

text \<open>
  Claim C2 as stated fails under the default error sink: after \<^verbatim>\<open>InitI18nWithOptions\<close>
  without a \<^verbatim>\<open>LogErrorFunc\<close> option the sink is \<^verbatim>\<open>log.Fatalf\<close>, and resolving an identifier
  that the catalog does not hold ends the process instead of returning the default text.
\<close>

theorem Localize_default_sink_exits:
  "InitI18nWithOptions ex_env (Some English) [] (initial_state []) = Returned None ex_ready \<and>
   is_Exited (Localize ex_env ''fallback'' ''missing.key'' None 0 ex_ready)"
  by (simp add: ex_init Localize_def ex_env_sel ex_Localize_def err_def ex_ready_def)

section \<open>Initialisation\<close>

text \<open>
  Claim C10. \<^verbatim>\<open>InitI18nWithConfig\<close> (and \<^verbatim>\<open>InitI18n\<close>) with a nil language, while
  \<^verbatim>\<open>DefaultLang\<close> is nil, panics on the nil dereference when the arguments of the
  ``Not special language'' log call are read: nothing has been logged, and \<^verbatim>\<open>DefaultLang\<close>
  is still nil; only the two sinks have been set.
\<close>

theorem InitI18nWithConfig_nil_lang_panics:
  "DefaultLang s = None \<Longrightarrow>
     InitI18nWithConfig e None log_info log_error format_name unmarshal_func pat s =
       Panicked NilPointerDereference
         (s\<lparr>logInfoFunc := (if log_info = NoFunc then log_Printf else log_info),
            logErrorFunc := (if log_error = NoFunc then log_Fatalf else log_error)\<rparr>) \<and>
     InitI18n e None log_info log_error s =
       Panicked NilPointerDereference
         (s\<lparr>logInfoFunc := (if log_info = NoFunc then log_Printf else log_info),
            logErrorFunc := (if log_error = NoFunc then log_Fatalf else log_error)\<rparr>) \<and>
     DefaultLang (final_state
        (InitI18nWithConfig e None log_info log_error format_name unmarshal_func pat s)) = None \<and>
     logged (final_state
        (InitI18nWithConfig e None log_info log_error format_name unmarshal_func pat s)) = logged s"
  by (simp add: InitI18nWithConfig_def InitI18n_def)

theorem InitI18nWithConfig_nil_lang_panics_witness:
  "DefaultLang (initial_state ([] :: string list)) = None \<and>
   InitI18n ex_env None NoFunc NoFunc (initial_state []) =
     Panicked NilPointerDereference
       ((initial_state [])\<lparr>logInfoFunc := log_Printf, logErrorFunc := log_Fatalf\<rparr>) \<and>
   DefaultLang (final_state
     (InitI18nWithConfig ex_env None NoFunc NoFunc [] NoUnmarshal [] (initial_state []))) = None"
proof -
  have h: "DefaultLang (initial_state ([] :: string list)) = None"
    by (simp add: initial_state_def)
  show ?thesis
    using h InitI18nWithConfig_nil_lang_panics [OF h, of ex_env NoFunc NoFunc "[]" NoUnmarshal "[]"]
    by simp
qed






text \<open>
  Claim C8 fails on the code. In the \<^verbatim>\<open>PackageSuffix\<close> case the pattern is rebuilt by
  \<^verbatim>\<open>path.Join((*option.Data).(string), "*."+format)\<close>, and \<^verbatim>\<open>option.Data\<close> is the suffix of this
  option: the path of the earlier \<^verbatim>\<open>PackagePath\<close> option is not kept anywhere (only the flag
  \<^verbatim>\<open>existPackagePath\<close> is) and does not occur in the result. After \<^verbatim>\<open>PackagePath(path)\<close> and
  \<^verbatim>\<open>PackageSuffix(suffix)\<close> the pattern is \<^verbatim>\<open>Join(suffix, "*."+suffix)\<close>, whatever \<open>path\<close> is.
\<close>

theorem PackageSuffix_after_PackagePath_drops_path:
  "apply_options e
     [NewOptionWithData PackagePath (IString path), NewOptionWithData PackageSuffix (IString suffix)]
     \<lparr>format = ''lang'', langFilesPattern = Join e [''./lang/*.'' @ ''lang''],
      existPackagePath = False, pListFunc = None\<rparr> s
   = Returned
       \<lparr>format = suffix, langFilesPattern = Join e [suffix, ''*.'' @ suffix],
        existPackagePath = True, pListFunc = None\<rparr> s"
  by (simp add: apply_option_def NewOptionWithData_def)


section \<open>Switching\<close>

text \<open>
  Claim C1, as the code has it. When the load of the descriptor's catalog reports an
  error, \<^verbatim>\<open>SwitchLanguage\<close> runs no callback and leaves \<^verbatim>\<open>Language\<close> and \<^verbatim>\<open>Localizer\<close> as
  they were, whichever way the call ends. It returns (the load error in the newest
  revision, nothing in \<^verbatim>\<open>i18n.go\<close>) exactly when the error-log sink hands control back;
  with the default sink \<^verbatim>\<open>log.Fatalf\<close>, or a nil sink, it does not return.
\<close>

theorem SwitchLanguage_failed_load:
  "((case Data l of
       Some d \<Rightarrow> bundle_ParseMessageFileBytes e d (FileName l) s
     | None \<Rightarrow> bundle_LoadMessageFile e (FileName l) s) = Returned (Some x) sf \<longrightarrow>
      Language (final_state (SwitchLanguage e order (Some l) s)) = Language s \<and>
      Localizer (final_state (SwitchLanguage e order (Some l) s)) = Localizer s \<and>
      invoked (final_state (SwitchLanguage e order (Some l) s)) = invoked s \<and>
      (returns (logErrorFunc s) \<longrightarrow>
         SwitchLanguage e order (Some l) s =
           Returned (Some (Errorf_Load l x))
             (sf\<lparr>logged := logged s @ written (logErrorFunc s) (Errorf_Load l x) []\<rparr>)) \<and>
      (\<not> returns (logErrorFunc s) \<longrightarrow> \<not> is_Returned (SwitchLanguage e order (Some l) s))) \<and>
   (bundle_LoadMessageFile e (FileName l) s = Returned (Some x) sf \<longrightarrow>
      Language (final_state (SwitchLanguage_v1 e order (Some l) s)) = Language s \<and>
      Localizer (final_state (SwitchLanguage_v1 e order (Some l) s)) = Localizer s \<and>
      invoked (final_state (SwitchLanguage_v1 e order (Some l) s)) = invoked s \<and>
      (returns (logErrorFunc s) \<longrightarrow> is_Returned (SwitchLanguage_v1 e order (Some l) s)) \<and>
      (\<not> returns (logErrorFunc s) \<longrightarrow> \<not> is_Returned (SwitchLanguage_v1 e order (Some l) s)))"
proof (intro conjI impI)
  assume load: "(case Data l of
       Some d \<Rightarrow> bundle_ParseMessageFileBytes e d (FileName l) s
     | None \<Rightarrow> bundle_LoadMessageFile e (FileName l) s) = Returned (Some x) sf"
  then have sf: "sf = s\<lparr>bundles := bundles sf\<rparr>"
    by (cases "Data l")
       (simp_all add: bundle_ParseMessageFileBytes_Returned bundle_LoadMessageFile_Returned)
  have sw: "SwitchLanguage e order (Some l) s =
      and_then (and_then (err (Errorf_Load l x) [] sf) (\<lambda>_ s2. Returned (Some (Errorf_Load l x)) s2))
        (\<lambda>er s2. Returned er s2)"
    using load by (cases "err (Errorf_Load l x) [] sf") (simp_all add: SwitchLanguage_def LoadLanguage_def)
  have fin: "final_state (SwitchLanguage e order (Some l) s)
      = sf\<lparr>logged := logged s @ written (logErrorFunc s) (Errorf_Load l x) []\<rparr>"
    unfolding sw using failed_load_outcome [OF sf, of "Errorf_Load l x"]
    by (cases "err (Errorf_Load l x) [] sf") simp_all
  have sinks: "logErrorFunc sf = logErrorFunc s" "logged sf = logged s"
    by (subst sf, simp)+
  show "Language (final_state (SwitchLanguage e order (Some l) s)) = Language s"
    unfolding fin by (subst sf) simp
  show "Localizer (final_state (SwitchLanguage e order (Some l) s)) = Localizer s"
    unfolding fin by (subst sf) simp
  show "invoked (final_state (SwitchLanguage e order (Some l) s)) = invoked s"
    unfolding fin by (subst sf) simp
  show "SwitchLanguage e order (Some l) s =
           Returned (Some (Errorf_Load l x))
             (sf\<lparr>logged := logged s @ written (logErrorFunc s) (Errorf_Load l x) []\<rparr>)"
    if "returns (logErrorFunc s)"
    unfolding sw using that by (simp add: err_returns sinks)
  show "\<not> is_Returned (SwitchLanguage e order (Some l) s)" if "\<not> returns (logErrorFunc s)"
    unfolding sw using err_not_returns [of sf "Errorf_Load l x" "[]"] that
    by (cases "err (Errorf_Load l x) [] sf") (simp_all add: sinks)
next
  let ?m = "''[i18n] SwitchLanguage load language file '' @ [CHR 0x22] @ ''%s''
                          @ [CHR 0x22] @ '' error: %v''"
  assume load: "bundle_LoadMessageFile e (FileName l) s = Returned (Some x) sf"
  then have sf: "sf = s\<lparr>bundles := bundles sf\<rparr>"
    by (rule bundle_LoadMessageFile_Returned)
  have sw: "SwitchLanguage_v1 e order (Some l) s = err ?m [IString (langName l), IError x] sf"
    using load by (simp add: SwitchLanguage_v1_def)
  have fin: "final_state (SwitchLanguage_v1 e order (Some l) s)
      = sf\<lparr>logged := logged sf @ written (logErrorFunc sf) ?m [IString (langName l), IError x]\<rparr>"
    unfolding sw by (rule err_final)
  have sinks: "logErrorFunc sf = logErrorFunc s" "logged sf = logged s"
    by (subst sf, simp)+
  show "Language (final_state (SwitchLanguage_v1 e order (Some l) s)) = Language s"
    unfolding fin by (subst sf) simp
  show "Localizer (final_state (SwitchLanguage_v1 e order (Some l) s)) = Localizer s"
    unfolding fin by (subst sf) simp
  show "invoked (final_state (SwitchLanguage_v1 e order (Some l) s)) = invoked s"
    unfolding fin by (subst sf) simp
  show "is_Returned (SwitchLanguage_v1 e order (Some l) s)" if "returns (logErrorFunc s)"
    unfolding sw using that by (simp add: err_returns sinks)
  show "\<not> is_Returned (SwitchLanguage_v1 e order (Some l) s)" if "\<not> returns (logErrorFunc s)"
    unfolding sw using that by (simp add: err_not_returns sinks)
qed


theorem SwitchLanguage_failed_load_witness:
  "bundle_LoadMessageFile ex_env (FileName ex_fr) ex_quiet
     = Returned (Some ''toml: expected value'') ex_quiet \<and>
   returns (logErrorFunc ex_quiet) \<and>
   SwitchLanguage ex_env [] (Some ex_fr) ex_quiet =
     Returned (Some (Errorf_Load ex_fr ''toml: expected value''))
       (ex_quiet\<lparr>logged := logged ex_quiet @
          [(UserSink 1, Errorf_Load ex_fr ''toml: expected value'', [])]\<rparr>) \<and>
   Language (final_state (SwitchLanguage ex_env [] (Some ex_fr) ex_quiet)) = Language ex_quiet \<and>
   Localizer (final_state (SwitchLanguage ex_env [] (Some ex_fr) ex_quiet)) = Localizer ex_quiet \<and>
   invoked (final_state (SwitchLanguage ex_env [] (Some ex_fr) ex_quiet)) = invoked ex_quiet \<and>
   is_Returned (SwitchLanguage_v1 ex_env [] (Some ex_fr) ex_quiet) \<and>
   Language (final_state (SwitchLanguage_v1 ex_env [] (Some ex_fr) ex_quiet)) = Language ex_quiet"
  using SwitchLanguage_failed_load [where l = ex_fr and e = ex_env and s = ex_quiet
      and x = "''toml: expected value''" and sf = ex_quiet and order = "[]"]
  by (simp add: ex_lang_sel ex_load_fr_quiet ex_quiet_sel)

text \<open>
  Claim C1 as stated fails under the default error sink: after \<^verbatim>\<open>InitI18nWithOptions\<close>
  without a \<^verbatim>\<open>LogErrorFunc\<close> option, a switch to the package whose body does not parse logs
  through \<^verbatim>\<open>log.Fatalf\<close> and the process ends; \<^verbatim>\<open>SwitchLanguage\<close> returns no error.
\<close>

theorem SwitchLanguage_default_sink_exits:
  "InitI18nWithOptions ex_env (Some English) [] (initial_state []) = Returned None ex_ready \<and>
   is_Exited (SwitchLanguage ex_env [] (Some ex_fr) ex_ready) \<and>
   is_Exited (SwitchLanguage_v1 ex_env [] (Some ex_fr) ex_ready)"
  by (simp add: ex_init SwitchLanguage_def SwitchLanguage_v1_def LoadLanguage_def ex_lang_sel
      ex_load_fr_ready err_def ex_ready_sel)




section \<open>The registry\<close>

text \<open>
  Claim C3 fails on the code. \<^verbatim>\<open>AddSwitchCallback\<close> looks the entry's own \<^verbatim>\<open>CallbackId\<close> up,
  but stores the entry under the counter and never writes the key back into the entry.
  An entry with \<^verbatim>\<open>CallbackId\<close> 0 (the zero value) and \<^verbatim>\<open>notOrigin\<close> false, added twice to the
  empty registry, is stored twice, under the keys 1 and 2, and nothing is logged.
\<close>

theorem AddSwitchCallback_twice_inserts_twice:
  "is_Returned
     (and_then
        (AddSwitchCallback (Some \<lparr>Callback = Some (Caller 7), CallbackId = 0, notOrigin = False\<rparr>) ex_quiet)
        (\<lambda>_. AddSwitchCallback (Some \<lparr>Callback = Some (Caller 7), CallbackId = 0, notOrigin = False\<rparr>))) \<and>
   callbackDataMap (final_state
     (and_then
        (AddSwitchCallback (Some \<lparr>Callback = Some (Caller 7), CallbackId = 0, notOrigin = False\<rparr>) ex_quiet)
        (\<lambda>_. AddSwitchCallback (Some \<lparr>Callback = Some (Caller 7), CallbackId = 0, notOrigin = False\<rparr>))))
     = [1 \<mapsto> Some \<lparr>Callback = Some (Caller 7), CallbackId = 0, notOrigin = False\<rparr>,
        2 \<mapsto> Some \<lparr>Callback = Some (Caller 7), CallbackId = 0, notOrigin = False\<rparr>] \<and>
   logged (final_state
     (and_then
        (AddSwitchCallback (Some \<lparr>Callback = Some (Caller 7), CallbackId = 0, notOrigin = False\<rparr>) ex_quiet)
        (\<lambda>_. AddSwitchCallback (Some \<lparr>Callback = Some (Caller 7), CallbackId = 0, notOrigin = False\<rparr>))))
     = logged ex_quiet"
  by (simp add: AddSwitchCallback_def getNewCallbackDataId_def ex_quiet_sel)

section \<open>Discovery\<close>

text \<open>
  Claim C5 fails on the code. The label of \<^verbatim>\<open>odd/xx.lang\<close> matches the pattern and its tag
  string \<^verbatim>\<open>!!\<close> yields no tag, so \<^verbatim>\<open>parseTags\<close> returns the empty slice; both revisions then
  index it with \<^verbatim>\<open>[0]\<close> and panic, which ends discovery instead of skipping the file.
\<close>

theorem unparsed_tag_panics:
  "ReadLangLabel (ex_label ''!!'' ''Nothing'') = [''!!'', ''Nothing''] \<and>
   parseTags ex_env ''!!'' = [] \<and>
   ReadLangFromFileName ex_env ''odd/xx.lang'' ex_quiet = Panicked IndexOutOfRange ex_quiet \<and>
   PackageListByPatternFunc ex_env [NewOptionWithData PackagePattern (IString ''odd/*.lang'')] ex_quiet
     = Panicked IndexOutOfRange ex_quiet \<and>
   initI18n_loop ex_env [''odd/xx.lang''] ex_quiet = Panicked IndexOutOfRange ex_quiet"
  by (simp add: ReadLangFromFileName_def PackageListByPatternFunc_def NewOptionWithData_def
      readLangLabel_def ex_env_sel ex_files_def ex_Glob_def ex_label_def
      ReadLangLabel_def i18nLabelRegexp_def parseTags_def ex_ParseAcceptLanguage_def)




end
